theory Spec2Isabelle
  imports Main "HOL-Library.Sublist"
begin

section \<open>Strings as Python sees them\<close>

text \<open>
  The analyzers work on Python \<open>str\<close> values. A \<open>str\<close> is modelled as a HOL string whose
  characters are the code points below 256: \<open>str.lower\<close> folds \<open>A\<close>..\<open>Z\<close> and the capital
  letters \<open>0xC0\<close>..\<open>0xDE\<close> of that range, \<open>\s\<close> and \<open>str.strip\<close> take the blanks of that
  range, and \<open>\d\<close> takes \<open>0\<close>..\<open>9\<close>, its only decimal digits. The emoji that the answer
  templates of the source carry lie outside the range and are left out of the string
  literals below; none of them is a letter, a digit or white space, so no scan of the
  source can tell the difference.
\<close>

definition latin_capitals :: string where
  \<comment> \<open>the code points \<open>0xC0\<close>..\<open>0xDE\<close> without the sign \<open>0xD7\<close>\<close>
  "latin_capitals =
     [CHR 0xC0, CHR 0xC1, CHR 0xC2, CHR 0xC3, CHR 0xC4, CHR 0xC5, CHR 0xC6, CHR 0xC7,
      CHR 0xC8, CHR 0xC9, CHR 0xCA, CHR 0xCB, CHR 0xCC, CHR 0xCD, CHR 0xCE, CHR 0xCF,
      CHR 0xD0, CHR 0xD1, CHR 0xD2, CHR 0xD3, CHR 0xD4, CHR 0xD5, CHR 0xD6, CHR 0xD8,
      CHR 0xD9, CHR 0xDA, CHR 0xDB, CHR 0xDC, CHR 0xDD, CHR 0xDE]"

definition latin_smalls :: string where
  \<comment> \<open>what \<open>str.lower\<close> makes of \<open>latin_capitals\<close>: each code point plus 32\<close>
  "latin_smalls =
     [CHR 0xE0, CHR 0xE1, CHR 0xE2, CHR 0xE3, CHR 0xE4, CHR 0xE5, CHR 0xE6, CHR 0xE7,
      CHR 0xE8, CHR 0xE9, CHR 0xEA, CHR 0xEB, CHR 0xEC, CHR 0xED, CHR 0xEE, CHR 0xEF,
      CHR 0xF0, CHR 0xF1, CHR 0xF2, CHR 0xF3, CHR 0xF4, CHR 0xF5, CHR 0xF6, CHR 0xF8,
      CHR 0xF9, CHR 0xFA, CHR 0xFB, CHR 0xFC, CHR 0xFD, CHR 0xFE]"

definition lower_chr :: "char \<Rightarrow> char" where
  "lower_chr c =
     (case map_of (zip (''ABCDEFGHIJKLMNOPQRSTUVWXYZ'' @ latin_capitals)
                       (''abcdefghijklmnopqrstuvwxyz'' @ latin_smalls)) c of
        Some d \<Rightarrow> d
      | None \<Rightarrow> c)"

definition lower :: "string \<Rightarrow> string" where
  \<comment> \<open>\<open>s.lower()\<close>\<close>
  "lower s = map lower_chr s"

definition is_space :: "char \<Rightarrow> bool" where
  \<comment> \<open>the characters that \<open>\s\<close> matches and \<open>str.strip\<close> removes\<close>
  "is_space c = (c \<in> set [CHR '' '', CHR 0x09, CHR 0x0A, CHR 0x0B, CHR 0x0C, CHR 0x0D,
                            CHR 0x1C, CHR 0x1D, CHR 0x1E, CHR 0x1F, CHR 0x85, CHR 0xA0])"

definition is_digit :: "char \<Rightarrow> bool" where
  "is_digit c = (c \<in> set ''0123456789'')"

definition is_upper :: "char \<Rightarrow> bool" where
  "is_upper c = (c \<in> set ''ABCDEFGHIJKLMNOPQRSTUVWXYZ'')"

definition strip :: "string \<Rightarrow> string" where
  \<comment> \<open>\<open>s.strip()\<close>\<close>
  "strip s = rev (dropWhile is_space (rev (dropWhile is_space s)))"

fun starts_with :: "string \<Rightarrow> string \<Rightarrow> bool" where
  "starts_with s [] = True"
| "starts_with [] (p # ps) = False"
| "starts_with (c # cs) (p # ps) = (c = p \<and> starts_with cs ps)"

fun sub_in :: "string \<Rightarrow> string \<Rightarrow> bool" where
  \<comment> \<open>\<open>p in s\<close> for two strings: \<open>p\<close> occurs in \<open>s\<close> as a contiguous run\<close>
  "sub_in p [] = (p = [])"
| "sub_in p (c # cs) = (starts_with (c # cs) p \<or> sub_in p cs)"

definition any_in :: "string list \<Rightarrow> string \<Rightarrow> bool" where
  \<comment> \<open>\<open>any(word in s for word in words)\<close>\<close>
  "any_in words s = list_ex (\<lambda>word. sub_in word s) words"

fun digit_val :: "char \<Rightarrow> int" where
  "digit_val c =
     (case map_of (zip ''0123456789'' [0, 1, 2, 3, 4, 5, 6, 7, 8, 9]) c of
        Some d \<Rightarrow> d
      | None \<Rightarrow> 0)"

definition py_int :: "string \<Rightarrow> int" where
  \<comment> \<open>\<open>int(num)\<close> on a run of decimal digits\<close>
  "py_int num = foldl (\<lambda>acc c. 10 * acc + digit_val c) 0 num"

section \<open>EnhancedSmartAnalyzer: the question type axis\<close>

text \<open>
  \<open>determine_question_type\<close> walks the dictionary \<open>question_types\<close> in the order its
  literal is written and returns at the first category one of whose keywords occurs in the
  question; \<open>'general'\<close> is returned after the loop.
\<close>

definition question_types :: "(string \<times> string list) list" where
  "question_types =
     [(''comparison'', [''compare'', ''versus'', ''vs'', ''difference'', ''better'', ''worse'']),
      (''ranking'', [''top'', ''highest'', ''lowest'', ''best'', ''worst'', ''rank'']),
      (''quantity'', [''how many'', ''count'', ''number'', ''total'', ''sum'']),
      (''analysis'', [''analyze'', ''analysis'', ''insight'', ''pattern'', ''trend'']),
      (''visualization'', [''chart'', ''graph'', ''plot'', ''draw'', ''show'', ''visualize'']),
      (''specific'', [''which'', ''what'', ''when'', ''where'', ''who'']),
      (''temporal'', [''when'', ''date'', ''time'', ''month'', ''day'', ''year''])]"

fun first_type :: "(string \<times> string list) list \<Rightarrow> string \<Rightarrow> string" where
  \<comment> \<open>the \<open>for q_type, keywords in question_types.items()\<close> loop with its \<open>return\<close>s\<close>
  "first_type [] question_lower = ''general''"
| "first_type ((q_type, keywords) # rest) question_lower =
     (if any_in keywords question_lower then q_type else first_type rest question_lower)"

definition determine_question_type :: "string \<Rightarrow> string" where
  "determine_question_type question_lower = first_type question_types question_lower"

section \<open>Regular expressions of the \<open>re\<close> module\<close>

text \<open>
  The patterns of the source use literals, character classes, greedy repetition of a
  character class (\<open>X*\<close>, \<open>X+\<close>, \<open>X{5,}\<close>), optional parts, alternatives and capturing
  groups. \<open>rx_match\<close> is the backtracking matcher of \<open>re\<close>: it returns every way the
  pattern can match at the start of the text, as the rest of the text and the groups, in
  the order in which the matcher tries them (longest repetition first, left alternative
  first, an optional part taken before it is skipped). \<open>re.search\<close> takes the first way at
  the leftmost position that has one.
\<close>

datatype rx =
    Lit string
  | Cls "char \<Rightarrow> bool"
  | Rep nat "char \<Rightarrow> bool"
  | Opt rx
  | Alt rx rx
  | Seq rx rx
  | Grp nat rx

type_synonym groups = "nat \<rightharpoonup> string"

fun rx_match :: "rx \<Rightarrow> string \<Rightarrow> groups \<Rightarrow> (string \<times> groups) list" where
  "rx_match (Lit p) s g = (if starts_with s p then [(drop (length p) s, g)] else [])"
| "rx_match (Cls P) s g = (case s of [] \<Rightarrow> [] | c # cs \<Rightarrow> if P c then [(cs, g)] else [])"
| "rx_match (Rep n P) s g =
     map (\<lambda>k. (drop k s, g)) (rev [n ..< Suc (length (takeWhile P s))])"
| "rx_match (Opt r) s g = rx_match r s g @ [(s, g)]"
| "rx_match (Alt a b) s g = rx_match a s g @ rx_match b s g"
| "rx_match (Seq a b) s g = concat (map (\<lambda>(s', g'). rx_match b s' g') (rx_match a s g))"
| "rx_match (Grp n r) s g =
     map (\<lambda>(s', g'). (s', g'(n \<mapsto> take (length s - length s') s))) (rx_match r s g)"

fun seqs :: "rx list \<Rightarrow> rx" where
  "seqs [] = Lit []"
| "seqs [r] = r"
| "seqs (r # rs) = Seq r (seqs rs)"

fun alts :: "string list \<Rightarrow> rx" where
  \<comment> \<open>\<open>a|b|c\<close> of literals\<close>
  "alts [] = Cls (\<lambda>c. False)"
| "alts [w] = Lit w"
| "alts (w # ws) = Alt (Lit w) (alts ws)"

fun rx_search :: "rx \<Rightarrow> string \<Rightarrow> (string \<times> groups) option" where
  \<comment> \<open>\<open>re.search(r, s)\<close>: the matched text (group 0) and the groups, or \<open>None\<close>\<close>
  "rx_search r [] =
     (case rx_match r [] Map.empty of
        [] \<Rightarrow> None
      | (s', g) # _ \<Rightarrow> Some ([], g))"
| "rx_search r (c # cs) =
     (case rx_match r (c # cs) Map.empty of
        [] \<Rightarrow> rx_search r cs
      | (s', g) # _ \<Rightarrow> Some (take (length (c # cs) - length s') (c # cs), g))"

function rx_findall :: "rx \<Rightarrow> string \<Rightarrow> (string \<times> groups) list" where
  \<comment> \<open>\<open>re.findall(r, s)\<close>: the matches from left to right, none overlapping another; an
      empty match moves the scan on by one character\<close>
  "rx_findall r s =
     (case rx_match r s Map.empty of
        [] \<Rightarrow> (case s of [] \<Rightarrow> [] | c # cs \<Rightarrow> rx_findall r cs)
      | (s', g) # _ \<Rightarrow>
          (take (length s - length s') s, g) #
          (if s = [] then [] else rx_findall r (drop (max 1 (length s - length s')) s)))"
  by pat_completeness auto
termination
  by (relation "measure (\<lambda>(r, s). length s)") auto

declare rx_findall.simps [simp del]

definition group :: "groups \<Rightarrow> nat \<Rightarrow> string" where
  \<comment> \<open>a group as \<open>re.findall\<close> reports it: the empty string when it took no part\<close>
  "group g n = (case g n of None \<Rightarrow> [] | Some t \<Rightarrow> t)"

definition spaces :: rx where
  \<comment> \<open>\<open>\s*\<close>\<close>
  "spaces = Rep 0 is_space"

definition digits :: rx where
  \<comment> \<open>\<open>\d+\<close>\<close>
  "digits = Rep 1 is_digit"

section \<open>EnhancedSmartAnalyzer: chart type and data focus\<close>

text \<open>
  \<open>setup_semantic_patterns\<close> assigns the two pattern tables once, in the constructor; no
  method writes them afterwards, so they are constants here. The lists \<open>best_for\<close> and
  \<open>entities\<close> take no part in the scoring and are kept as the third component.
\<close>

record patterns =
  key_words :: "string list"
  phrases :: "string list"
  other :: "string list"

definition chart_type_patterns :: "(string \<times> patterns) list" where
  "chart_type_patterns =
     [(''pie'',
       \<lparr>key_words = [''pie'', ''distribution'', ''proportion'', ''percentage'', ''share'',
                     ''breakdown''],
        phrases = [''pie chart'', ''show distribution'', ''break down'', ''proportion of''],
        other = [''categorical data'', ''parts distribution'', ''defect distribution'']\<rparr>),
      (''bar'',
       \<lparr>key_words = [''bar'', ''compare'', ''comparison'', ''ranking'', ''top'', ''highest'',
                     ''lowest''],
        phrases = [''bar chart'', ''compare'', ''rank'', ''top 10'', ''highest'', ''lowest''],
        other = [''comparisons'', ''rankings'', ''categorical analysis'']\<rparr>),
      (''line'',
       \<lparr>key_words = [''line'', ''trend'', ''over time'', ''timeline'', ''progression'',
                     ''change''],
        phrases = [''line chart'', ''over time'', ''trend analysis'', ''time series''],
        other = [''time series'', ''trends'', ''progression analysis'']\<rparr>),
      (''scatter'',
       \<lparr>key_words = [''scatter'', ''correlation'', ''relationship'', ''versus'', ''vs''],
        phrases = [''scatter plot'', ''correlation'', ''relationship between''],
        other = [''correlation analysis'', ''relationship analysis'']\<rparr>)]"

definition data_focus_patterns :: "(string \<times> patterns) list" where
  "data_focus_patterns =
     [(''defects'',
       \<lparr>key_words = [''defect'', ''rejection'', ''reason'', ''cause'', ''problem'', ''issue'',
                     ''fault''],
        phrases = [''rejection reasons'', ''defect types'', ''why rejected'', ''causes of''],
        other = [''burr'', ''damage'', ''toolmark'', ''oversize'', ''undersize'']\<rparr>),
      (''parts'',
       \<lparr>key_words = [''part'', ''component'', ''item'', ''product'', ''piece''],
        phrases = [''part number'', ''which part'', ''part analysis'', ''component''],
        other = []\<rparr>),
      (''trends'',
       \<lparr>key_words = [''trend'', ''time'', ''monthly'', ''daily'', ''weekly'', ''over time'',
                     ''progression''],
        phrases = [''over time'', ''trend analysis'', ''time series'', ''monthly trends''],
        other = [''month'', ''day'', ''week'', ''year'']\<rparr>),
      (''performance'',
       \<lparr>key_words = [''performance'', ''quality'', ''efficiency'', ''rate'', ''ratio'',
                     ''percentage''],
        phrases = [''rejection rate'', ''quality performance'', ''efficiency analysis''],
        other = [''rate'', ''ratio'', ''percentage'']\<rparr>)]"

definition hits :: "string list \<Rightarrow> string \<Rightarrow> int" where
  \<comment> \<open>how many of the words occur in the question\<close>
  "hits words question_lower = int (length (filter (\<lambda>word. sub_in word question_lower) words))"

definition raw_score :: "patterns \<Rightarrow> string \<Rightarrow> int" where
  \<comment> \<open>the two inner loops: 2 for each keyword found, 3 for each phrase found\<close>
  "raw_score p question_lower =
     2 * hits (key_words p) question_lower + 3 * hits (phrases p) question_lower"

definition scores :: "(string \<times> patterns) list \<Rightarrow> string \<Rightarrow> (string \<times> int) list" where
  \<comment> \<open>the score dictionary, in the order in which the loop inserts its keys\<close>
  "scores table question_lower = map (\<lambda>(label, p). (label, raw_score p question_lower)) table"

definition add_to :: "string \<Rightarrow> int \<Rightarrow> (string \<times> int) list \<Rightarrow> (string \<times> int) list" where
  \<comment> \<open>\<open>d[key] += n\<close> for a key the dictionary has\<close>
  "add_to key n d = map (\<lambda>(k, v). if k = key then (k, v + n) else (k, v)) d"

fun first_max :: "string \<times> int \<Rightarrow> (string \<times> int) list \<Rightarrow> string" where
  "first_max (k, v) [] = k"
| "first_max (k, v) ((k', v') # rest) =
     (if v < v' then first_max (k', v') rest else first_max (k, v) rest)"

fun max_key :: "(string \<times> int) list \<Rightarrow> string" where
  \<comment> \<open>\<open>max(d, key=d.get)\<close>: the first key, in the order of the dictionary, whose value no
      other exceeds. Python raises on the empty dictionary; the tables are not empty.\<close>
  "max_key (kv # rest) = first_max kv rest"

definition top_score :: "(string \<times> int) list \<Rightarrow> int" where
  \<comment> \<open>\<open>max(d.values())\<close>\<close>
  "top_score d = Max (set (map snd d))"

definition best_label :: "(string \<times> int) list \<Rightarrow> string" where
  \<comment> \<open>\<open>max(d, key=d.get) if max(d.values()) > 0 else 'auto'\<close>\<close>
  "best_label d = (if 0 < top_score d then max_key d else ''auto'')"

definition chart_scores :: "string \<Rightarrow> (string \<times> int) list" where
  \<comment> \<open>\<open>chart_scores\<close> of \<open>determine_chart_type\<close> after the three contextual increments\<close>
  "chart_scores question_lower =
     (let d0 = scores chart_type_patterns question_lower;
          d1 = (if any_in [''distribution'', ''proportion'', ''breakdown'', ''share'']
                     question_lower
                then add_to ''pie'' 5 d0 else d0);
          d2 = (if any_in [''compare'', ''top'', ''highest'', ''lowest'', ''rank'']
                     question_lower
                then add_to ''bar'' 5 d1 else d1);
          d3 = (if any_in [''trend'', ''over time'', ''monthly'', ''progression'']
                     question_lower
                then add_to ''line'' 5 d2 else d2)
      in d3)"

definition determine_chart_type :: "string \<Rightarrow> string" where
  "determine_chart_type question_lower = best_label (chart_scores question_lower)"

definition determine_data_focus :: "string \<Rightarrow> string" where
  "determine_data_focus question_lower =
     best_label (scores data_focus_patterns question_lower)"

section \<open>EnhancedSmartAnalyzer: the analyzer object and its handlers\<close>

text \<open>
  The object holds the loaded table and the dictionary \<open>conversation_context\<close>. Of the
  table the handlers below read the defect columns only: \<open>df\<close> maps a column name to the
  counts of its rows, and \<open>defect_columns\<close> is the list the loader computed. Every method
  takes the object and returns it with its result, so that what a method writes is
  visible in its result.
\<close>

record context_dict =
  ctx_last_question :: string
  ctx_last_answer :: string
  ctx_current_focus :: "string option"
  ctx_mentioned_entities :: "string list"
  ctx_chart_preferences :: "string \<rightharpoonup> string"

record enhanced =
  df :: "string \<rightharpoonup> int list"
  defect_columns :: "string list"
  conversation_context :: context_dict

record analysis =
  original_question :: string
  chart_type :: string
  data_focus :: string
  specific_count :: "int option"
  time_period :: "string option"
  specific_entities :: "string list"
  question_type :: string
  complexity :: string

text \<open>
  What a turn of the enhanced analyzer ends in: the chart or aggregation routine that
  produces the answer text, with the arguments it is called with. The chart routines and
  the two inline table queries run in pandas and plotly and are not modelled further.
\<close>

datatype action =
    Create_Intelligent_Pie_Chart int
  | Create_Intelligent_Line_Chart
  | Create_Intelligent_Bar_Chart int
  | Get_Top_Rejection_Reasons "int option"
  | Highest_Rejections_Part
  | Parts_Analysis_Available
  | Trend_Direction

definition truthy :: "int option \<Rightarrow> bool" where
  \<comment> \<open>the truth value of an \<open>int\<close> or \<open>None\<close>\<close>
  "truthy v = (case v of None \<Rightarrow> False | Some n \<Rightarrow> n \<noteq> 0)"

definition or_else :: "int option \<Rightarrow> int \<Rightarrow> int" where
  \<comment> \<open>\<open>v or d\<close>\<close>
  "or_else v d = (case v of None \<Rightarrow> d | Some n \<Rightarrow> if n = 0 then d else n)"

definition number_rx :: rx where
  \<comment> \<open>\<open>top\s*(\d+)|first\s*(\d+)|(\d+)\s*most|(\d+)\s*highest\<close>\<close>
  "number_rx =
     Alt (seqs [Lit ''top'', spaces, Grp 1 digits])
    (Alt (seqs [Lit ''first'', spaces, Grp 2 digits])
    (Alt (seqs [Grp 3 digits, spaces, Lit ''most''])
         (seqs [Grp 4 digits, spaces, Lit ''highest''])))"

fun count_loop :: "string list list \<Rightarrow> int option \<Rightarrow> int option" where
  \<comment> \<open>the loop over \<open>number_matches\<close>: the first non-empty group of a match is stored, and
      the loop ends once the stored count is truthy\<close>
  "count_loop [] sc = sc"
| "count_loop (match # rest) sc =
     (let sc' = (case filter (\<lambda>num. num \<noteq> []) match of
                   [] \<Rightarrow> sc
                 | num # _ \<Rightarrow> Some (py_int num))
      in if truthy sc' then sc' else count_loop rest sc')"

definition number_matches :: "string \<Rightarrow> string list list" where
  "number_matches question_lower =
     map (\<lambda>(m, g). map (group g) [1, 2, 3, 4]) (rx_findall number_rx question_lower)"

definition analyze_question_semantically :: "enhanced \<Rightarrow> string \<Rightarrow> analysis \<times> enhanced" where
  "analyze_question_semantically self question =
     (let question_lower = strip (lower question)
      in (\<lparr>original_question = question,
           chart_type = determine_chart_type question_lower,
           data_focus = determine_data_focus question_lower,
           specific_count = count_loop (number_matches question_lower) None,
           time_period = None,
           specific_entities = [],
           question_type = determine_question_type question_lower,
           complexity = ''medium''\<rparr>, self))"

definition create_smart_visualization :: "string \<Rightarrow> analysis \<Rightarrow> action" where
  \<comment> \<open>the chart routines catch their own exceptions, so the \<open>except\<close> branch of this
      function is not taken\<close>
  "create_smart_visualization question a =
     (let count = or_else (specific_count a) 15;
          chart =
            (if chart_type a = ''auto'' then
               (if data_focus a = ''defects'' then
                  (if sub_in ''distribution'' (lower question) then ''pie'' else ''bar'')
                else if data_focus a = ''trends'' then ''line''
                else if data_focus a = ''parts'' then ''bar''
                else ''bar'')
             else chart_type a)
      in if chart = ''pie'' then Create_Intelligent_Pie_Chart count
         else if chart = ''line'' then Create_Intelligent_Line_Chart
         else if chart = ''bar'' then Create_Intelligent_Bar_Chart count
         else Create_Intelligent_Bar_Chart count)"

definition wants_chart :: "string \<Rightarrow> bool" where
  \<comment> \<open>\<open>'chart' in question.lower() or 'graph' in question.lower()\<close>\<close>
  "wants_chart question = (sub_in ''chart'' (lower question) \<or> sub_in ''graph'' (lower question))"

definition handle_defect_analysis :: "string \<Rightarrow> analysis \<Rightarrow> action" where
  "handle_defect_analysis question a =
     (if wants_chart question then create_smart_visualization question a
      else Get_Top_Rejection_Reasons (Some (or_else (specific_count a) 5)))"

definition handle_parts_analysis :: "string \<Rightarrow> analysis \<Rightarrow> action" where
  "handle_parts_analysis question a =
     (if wants_chart question then create_smart_visualization question a
      else if sub_in ''highest'' (lower question) then Highest_Rejections_Part
      else Parts_Analysis_Available)"

definition handle_trend_analysis :: "string \<Rightarrow> analysis \<Rightarrow> action" where
  "handle_trend_analysis question a =
     (if wants_chart question then create_smart_visualization question a
      else Trend_Direction)"

definition visual_cues :: "string list" where
  \<comment> \<open>the word list of the first test of \<open>generate_intelligent_response\<close>\<close>
  "visual_cues = [''chart'', ''graph'', ''plot'', ''draw'', ''show'', ''visualize'']"

definition generate_intelligent_response :: "enhanced \<Rightarrow> string \<Rightarrow> action \<times> enhanced" where
  \<comment> \<open>in the last branch \<open>analysis.get('specific_count', 5)\<close> reads a key that
      \<open>analyze_question_semantically\<close> always stores, so it yields the stored value, which
      is \<open>None\<close> when the question names no count\<close>
  "generate_intelligent_response self question =
     (let (a, self1) = analyze_question_semantically self question
      in if question_type a = ''visualization'' \<or> any_in visual_cues (lower question)
         then (create_smart_visualization question a, self1)
         else if data_focus a = ''defects'' then (handle_defect_analysis question a, self1)
         else if data_focus a = ''parts'' then (handle_parts_analysis question a, self1)
         else if data_focus a = ''trends'' then (handle_trend_analysis question a, self1)
         else (Get_Top_Rejection_Reasons (specific_count a), self1))"

definition rejection_patterns :: "rx list" where
  "rejection_patterns =
     [seqs [Lit ''top'', spaces, Opt (Grp 1 digits), spaces,
            Grp 2 (alts [''rejection'', ''defect'', ''cause''])],
      seqs [Grp 1 (alts [''tell'', ''show'', ''list'', ''give'']), spaces,
            Opt (Grp 2 (Seq (Lit ''me'') spaces)),
            Grp 3 (alts [''top'', ''highest'', ''most'']), spaces, Opt (Grp 4 digits), spaces,
            Grp 5 (alts [''rejection'', ''defect'', ''reason''])],
      seqs [Lit ''most'', spaces, Grp 1 (alts [''frequent'', ''common'']), spaces,
            Grp 2 (alts [''rejection'', ''defect''])],
      seqs [Lit ''highest'', spaces, Grp 1 (alts [''rejection'', ''defect''])],
      seqs [Grp 1 (alts [''rejection'', ''defect'']), spaces, Lit ''reason''],
      seqs [Grp 1 (alts [''why'', ''what'']), spaces, Rep 0 (\<lambda>c. c \<noteq> CHR 0x0A),
            Grp 2 (alts [''reject'', ''fail''])]]"

fun rejection_scan :: "rx list \<Rightarrow> string \<Rightarrow> bool \<times> int" where
  \<comment> \<open>the loop over \<open>rejection_patterns\<close>: \<open>is_rejection_query\<close> and \<open>requested_count\<close>
      when the loop ends\<close>
  "rejection_scan [] question_lower = (False, 5)"
| "rejection_scan (pattern # rest) question_lower =
     (case rx_search pattern question_lower of
        None \<Rightarrow> rejection_scan rest question_lower
      | Some m \<Rightarrow>
          (True,
           case rx_findall digits question_lower of
             [] \<Rightarrow> 5
           | (num, g) # _ \<Rightarrow> min (max (py_int num) 1) 20))"

definition chart_words :: "string list" where
  \<comment> \<open>the word list of the first test of \<open>answer_question\<close>\<close>
  "chart_words = [''chart'', ''graph'', ''plot'', ''draw'', ''show'', ''visualize'', ''pie'',
                  ''bar'', ''line'']"

definition answer_question :: "enhanced \<Rightarrow> string \<Rightarrow> action \<times> enhanced" where
  "answer_question self question =
     (let question_lower = lower question
      in if any_in chart_words question_lower
         then generate_intelligent_response self question
         else (case rejection_scan rejection_patterns question_lower of
                 (True, requested_count) \<Rightarrow>
                   (Get_Top_Rejection_Reasons (Some requested_count), self)
               | (False, requested_count) \<Rightarrow> generate_intelligent_response self question))"

text \<open>
  \<open>get_top_rejection_reasons\<close> up to the ranking it reports. The answer text lists the
  ranked reasons under the headline \<open>Top n Rejection Reasons\<close>, \<open>n\<close> the length of the
  ranking, with percentages in floating point that are not modelled. The columns are taken
  to hold 64-bit integer counts, as pandas reads a column of whole numbers.
\<close>

datatype reasons_answer =
    No_Defect_Data
  | No_Rejection_Data
  | Top_Reasons "(string \<times> int) list"

definition dict_set :: "(string \<times> int) list \<Rightarrow> string \<Rightarrow> int \<Rightarrow> (string \<times> int) list" where
  \<comment> \<open>\<open>d[k] = v\<close>: a new key goes to the end, a known key keeps its place\<close>
  "dict_set d k v =
     (if k \<in> fst ` set d then map (\<lambda>(k', v'). if k' = k then (k', v) else (k', v')) d
      else d @ [(k, v)])"

definition int64 :: "int \<Rightarrow> int" where
  \<comment> \<open>the value of a 64-bit signed integer after wrap-around\<close>
  "int64 n = (n + 9223372036854775808) mod 18446744073709551616 - 9223372036854775808"

definition column_sum :: "int list \<Rightarrow> int" where
  \<comment> \<open>\<open>df[col].sum()\<close> of a column of 64-bit integers: the sum wraps around\<close>
  "column_sum rows = int64 (sum_list rows)"

fun defect_totals :: "enhanced \<Rightarrow> string list \<Rightarrow> (string \<times> int) list \<Rightarrow> (string \<times> int) list" where
  \<comment> \<open>the loop that fills \<open>defect_totals\<close>\<close>
  "defect_totals self [] d = d"
| "defect_totals self (col # cols) d =
     (case df self col of
        None \<Rightarrow> defect_totals self cols d
      | Some rows \<Rightarrow>
          (if 0 < column_sum rows then defect_totals self cols (dict_set d col (column_sum rows))
           else defect_totals self cols d))"

definition slice_to :: "int option \<Rightarrow> 'a list \<Rightarrow> 'a list" where
  \<comment> \<open>\<open>xs[:count]\<close>: everything for \<open>None\<close>, and a negative count leaves that many off
      the end\<close>
  "slice_to count xs =
     (case count of
        None \<Rightarrow> xs
      | Some n \<Rightarrow> if 0 \<le> n then take (nat n) xs else take (length xs - nat (- n)) xs)"

definition get_top_rejection_reasons :: "enhanced \<Rightarrow> int option \<Rightarrow> reasons_answer" where
  \<comment> \<open>\<open>sorted(..., key=lambda x: x[1], reverse=True)\<close> is stable: equal totals keep
      the order of the dictionary\<close>
  "get_top_rejection_reasons self count =
     (let totals = defect_totals self (defect_columns self) []
      in if totals = [] then No_Defect_Data
         else (let sorted_defects = slice_to count (sort_key (\<lambda>(col, total). - total) totals)
               in if sorted_defects = [] then No_Rejection_Data
                  else Top_Reasons sorted_defects))"

definition score_of :: "(string \<times> int) list \<Rightarrow> string \<Rightarrow> int" where
  \<comment> \<open>\<open>d[label]\<close> for a label the dictionary has\<close>
  "score_of d label = (case map_of d label of Some v \<Rightarrow> v | None \<Rightarrow> 0)"

definition chart_raw :: "string \<Rightarrow> string \<Rightarrow> int" where
  \<comment> \<open>the score of a chart label after the keyword and phrase loops, before the
      contextual increments\<close>
  "chart_raw label question_lower = score_of (scores chart_type_patterns question_lower) label"

definition is_chart :: "action \<Rightarrow> bool" where
  \<comment> \<open>the turn ends in one of the chart routines\<close>
  "is_chart act =
     (case act of
        Create_Intelligent_Pie_Chart n \<Rightarrow> True
      | Create_Intelligent_Line_Chart \<Rightarrow> True
      | Create_Intelligent_Bar_Chart n \<Rightarrow> True
      | _ \<Rightarrow> False)"

definition empty_context :: context_dict where
  \<comment> \<open>\<open>conversation_context\<close> as the constructor sets it\<close>
  "empty_context =
     \<lparr>ctx_last_question = [], ctx_last_answer = [], ctx_current_focus = None,
      ctx_mentioned_entities = [], ctx_chart_preferences = Map.empty\<rparr>"

definition example_analyzer :: enhanced where
  \<comment> \<open>an analyzer over a small table with six defect columns that have rejections and one
      that has none\<close>
  "example_analyzer =
     \<lparr>df = [''Burr'' \<mapsto> [5, 1], ''Damage'' \<mapsto> [2, 0], ''Toolmark'' \<mapsto> [4, 5],
            ''Oversize'' \<mapsto> [4, 0], ''Undersize'' \<mapsto> [0, 3], ''Scratch'' \<mapsto> [1, 0],
            ''Chatter'' \<mapsto> [0, 0]],
      defect_columns = [''Burr'', ''Damage'', ''Toolmark'', ''Oversize'', ''Undersize'',
                        ''Scratch'', ''Chatter''],
      conversation_context = empty_context\<rparr>"

section \<open>IntelligentDataAnalyzer: conversation memory and follow-up questions\<close>

text \<open>
  The dictionary \<open>conversation_memory\<close> of the analyzer. Its entry \<open>context\<close> (here \<open>memory_context\<close>) is a
  dictionary of its own, of which only the key \<open>current_part\<close> is ever used.
\<close>

record conversation_memory =
  last_question :: string
  last_answer :: string
  mentioned_parts :: "string list"
  mentioned_dates :: "string list"
  mentioned_defects :: "string list"
  memory_context :: "string \<rightharpoonup> string"

definition fresh_memory :: conversation_memory where
  \<comment> \<open>\<open>conversation_memory\<close> as the constructor sets it\<close>
  "fresh_memory =
     \<lparr>last_question = [], last_answer = [], mentioned_parts = [], mentioned_dates = [],
      mentioned_defects = [], memory_context = Map.empty\<rparr>"

text \<open>
  What a turn ends in: the handler that produces the answer, with its argument, or the
  literal message of the pronoun branch. The handlers query the table with pandas; the
  text each of them returns is a parameter \<open>handlers\<close> of the model.
\<close>

datatype reply =
    Analyze_Part_Rejection_Reasons string
  | Get_Part_Detailed_Analysis string
  | Unable_To_Determine_Part
  | Handle_Machine_Questions string
  | Handle_Part_Questions string
  | Handle_Date_Questions string
  | Handle_Defect_Questions string
  | Handle_Quantity_Questions string
  | Handle_Ratio_Questions string
  | Handle_Analysis_Questions string
  | Handle_General_Questions string

definition reply_text :: "(reply \<Rightarrow> string) \<Rightarrow> reply \<Rightarrow> string" where
  "reply_text handlers r =
     (case r of
        Unable_To_Determine_Part \<Rightarrow>
          ''**Error:** Unable to determine the part in question. Please specify clearly.''
      | _ \<Rightarrow> handlers r)"

definition part_chars :: "char \<Rightarrow> bool" where
  \<comment> \<open>\<open>[A-Z\s\d-]\<close>\<close>
  "part_chars c = (is_upper c \<or> is_space c \<or> is_digit c \<or> c = CHR ''-'')"

definition part_shape :: rx where
  \<comment> \<open>\<open>[A-Z][A-Z\s\d-]+\d+(?:-\d+)?\<close>\<close>
  "part_shape = seqs [Cls is_upper, Rep 1 part_chars, digits, Opt (Seq (Lit ''-'') digits)]"

definition answer_part_rx :: rx where
  \<comment> \<open>\<open>([A-Z][A-Z\s\d-]+\d+(?:-\d+)?)\<close>, searched in the last answer\<close>
  "answer_part_rx = Grp 1 part_shape"

definition question_part_rx :: rx where
  \<comment> \<open>\<open>part\s+(number|name)\s+([A-Z][A-Z\s\d-]+\d+(?:-\d+)?)\<close>, searched in the last
      question\<close>
  "question_part_rx =
     seqs [Lit ''part'', Rep 1 is_space, Grp 1 (alts [''number'', ''name'']), Rep 1 is_space,
           Grp 2 part_shape]"

definition loose_part_rx :: rx where
  \<comment> \<open>\<open>([A-Z]{5,}\s*[A-Z]*\s*\d+(?:-\d+)?)\<close>, searched in the last answer\<close>
  "loose_part_rx =
     Grp 1 (seqs [Rep 5 is_upper, spaces, Rep 0 is_upper, spaces, digits,
                  Opt (Seq (Lit ''-'') digits)])"

definition part_match :: "string \<Rightarrow> string \<Rightarrow> (string \<times> groups) option" where
  \<comment> \<open>the three searches joined by \<open>or\<close>: a match object is truthy, \<open>None\<close> is not\<close>
  "part_match last_q last_a =
     (case rx_search answer_part_rx last_a of
        Some m \<Rightarrow> Some m
      | None \<Rightarrow>
          (case rx_search question_part_rx last_q of
             Some m \<Rightarrow> Some m
           | None \<Rightarrow> rx_search loose_part_rx last_a))"

definition context_words :: "string list" where
  "context_words = [''why'', ''how'', ''what caused'', ''reason'', ''because'', ''this part'',
                    ''that part'', ''why this'', ''why that'']"

definition remember_part :: "conversation_memory \<Rightarrow> string \<Rightarrow> conversation_memory" where
  \<comment> \<open>the two writes after a part name was found\<close>
  "remember_part mem part_name =
     mem\<lparr>memory_context := (memory_context mem)(''current_part'' \<mapsto> part_name),
         mentioned_parts :=
           (if part_name \<in> set (mentioned_parts mem) then mentioned_parts mem
            else mentioned_parts mem @ [part_name])\<rparr>"

definition follow_up :: "conversation_memory \<Rightarrow> string \<Rightarrow> reply option \<times> conversation_memory" where
  \<comment> \<open>the first block of \<open>handle_contextual_questions\<close>: the reply it returns, if it
      returns, and the memory it leaves. \<open>group(1)\<close> is never empty for the first and the
      third pattern, so \<open>group(2)\<close> is read for the second pattern only.\<close>
  "follow_up mem question =
     (let question_lower = lower question;
          last_q = lower (last_question mem);
          last_a = last_answer mem
      in if any_in context_words question_lower \<and> last_a \<noteq> [] then
           (case part_match last_q last_a of
              None \<Rightarrow> (None, mem)
            | Some (m, g) \<Rightarrow>
                (let part_name = (if group g 1 \<noteq> [] then group g 1 else group g 2)
                 in if part_name \<noteq> [] then
                      (let mem1 = remember_part mem (strip part_name)
                       in if sub_in ''why'' question_lower
                             \<and> (sub_in ''rejection'' question_lower
                                  \<or> sub_in ''most'' question_lower
                                  \<or> sub_in ''this part'' question_lower)
                          then (Some (Analyze_Part_Rejection_Reasons (strip part_name)), mem1)
                          else if sub_in ''how'' question_lower \<and> sub_in ''many'' question_lower
                          then (Some (Get_Part_Detailed_Analysis (strip part_name)), mem1)
                          else if sub_in ''what caused'' question_lower
                                  \<or> sub_in ''reason'' question_lower
                          then (Some (Analyze_Part_Rejection_Reasons (strip part_name)), mem1)
                          else (None, mem1))
                    else (None, mem)))
         else (None, mem))"

definition current_part :: "conversation_memory \<Rightarrow> string" where
  \<comment> \<open>\<open>conversation_memory['context'].get('current_part', '')\<close>\<close>
  "current_part mem = (case memory_context mem ''current_part'' of None \<Rightarrow> [] | Some p \<Rightarrow> p)"

definition pronoun_reference :: "conversation_memory \<Rightarrow> string \<Rightarrow> reply option" where
  \<comment> \<open>the second block of \<open>handle_contextual_questions\<close>\<close>
  "pronoun_reference mem question =
     (let question_lower = lower question
      in if (sub_in ''this part'' question_lower \<or> sub_in ''that part'' question_lower)
            \<and> current_part mem \<noteq> []
         then (if current_part mem = [] then Some Unable_To_Determine_Part
               else if sub_in ''rejection'' question_lower \<or> sub_in ''defect'' question_lower
               then Some (Analyze_Part_Rejection_Reasons (current_part mem))
               else None)
         else None)"

definition handle_contextual_questions ::
    "conversation_memory \<Rightarrow> string \<Rightarrow> reply option \<times> conversation_memory" where
  "handle_contextual_questions mem question =
     (case follow_up mem question of
        (Some r, mem1) \<Rightarrow> (Some r, mem1)
      | (None, mem1) \<Rightarrow> (pronoun_reference mem1 question, mem1))"

definition keyword_routing ::
    "(reply \<Rightarrow> string) \<Rightarrow> conversation_memory \<Rightarrow> string \<Rightarrow> reply \<times> conversation_memory" where
  \<comment> \<open>\<open>answer_question\<close> after the follow-up test: the branches in the order of the
      source; only the machine, part and general branches store the answer\<close>
  "keyword_routing handlers mem question =
     (let question_lower = lower question;
          has = (\<lambda>word. sub_in word question_lower);
          stored = (\<lambda>r. (r, mem\<lparr>last_answer := reply_text handlers r\<rparr>))
      in if has ''machine'' then stored (Handle_Machine_Questions question)
         else if (has ''part'' \<and> (has ''highest'' \<or> has ''lowest'' \<or> has ''rejection''))
                 \<or> has ''which part''
                 \<or> (has ''part number'' \<and> \<not> has ''total'')
         then stored (Handle_Part_Questions question)
         else if any_in [''date'', ''day'', ''month'', ''year'', ''when''] question_lower
                 \<and> \<not> has ''part''
         then (Handle_Date_Questions question, mem)
         else if any_in [''reason'', ''defect'', ''burr'', ''damage'', ''toolmark''] question_lower
                 \<and> \<not> has ''part''
         then (Handle_Defect_Questions question, mem)
         else if any_in [''total'', ''count'', ''number'', ''quantity'', ''how many'']
                   question_lower
                 \<and> \<not> has ''part''
         then (Handle_Quantity_Questions question, mem)
         else if any_in [''date'', ''day''] question_lower
                 \<and> any_in [''highest'', ''lowest''] question_lower
         then (Handle_Date_Questions question, mem)
         else if any_in [''reason'', ''defect'', ''frequent''] question_lower
                 \<and> any_in [''highest'', ''lowest'', ''most''] question_lower
         then (Handle_Defect_Questions question, mem)
         else if any_in [''ratio'', ''percentage'', ''rate''] question_lower
         then (Handle_Ratio_Questions question, mem)
         else if any_in [''trend'', ''analysis'', ''chart'', ''graph''] question_lower
         then (Handle_Analysis_Questions question, mem)
         else stored (Handle_General_Questions question))"

definition answer_question_intelligent ::
    "(reply \<Rightarrow> string) \<Rightarrow> conversation_memory \<Rightarrow> string \<Rightarrow> reply \<times> conversation_memory" where
  \<comment> \<open>\<open>IntelligentDataAnalyzer.answer_question\<close>; the answer it returns is
      \<open>reply_text handlers\<close> of the reply. \<open>if context_response:\<close> is the test that the
      follow-up reply is there and its text not empty.\<close>
  "answer_question_intelligent handlers mem question =
     (let mem1 = mem\<lparr>last_question := question\<rparr>
      in case handle_contextual_questions mem1 question of
           (Some r, mem2) \<Rightarrow>
             (if reply_text handlers r \<noteq> []
              then (r, mem2\<lparr>last_answer := reply_text handlers r\<rparr>)
              else keyword_routing handlers mem2 question)
         | (None, mem2) \<Rightarrow> keyword_routing handlers mem2 question)"

fun turns :: "(reply \<Rightarrow> string) \<Rightarrow> conversation_memory \<Rightarrow> string list \<Rightarrow> conversation_memory" where
  \<comment> \<open>the memory after a sequence of questions\<close>
  "turns handlers mem [] = mem"
| "turns handlers mem (q # qs) = turns handlers (snd (answer_question_intelligent handlers mem q)) qs"

definition example_handlers :: "reply \<Rightarrow> string" where
  \<comment> \<open>answer texts of the handlers over a table whose part with the most rejections is
      \<open>PART-1001\<close>, each in the wording of its handler\<close>
  "example_handlers r =
     (case r of
        Analyze_Part_Rejection_Reasons p \<Rightarrow> ''**Why '' @ p @ '' has the most rejections:**''
      | Get_Part_Detailed_Analysis p \<Rightarrow> ''**Detailed Analysis for '' @ p @ '':**''
      | Handle_Part_Questions q \<Rightarrow> ''**Answer:** PART-1001 with 500 total rejections.''
      | Handle_Defect_Questions q \<Rightarrow> ''**Top 5 Rejection Reasons:**''
      | Handle_Machine_Questions q \<Rightarrow>
          ''**Answer:** The dataset does not contain machine identifiers.''
      | _ \<Rightarrow> ''**Data Summary:**'')"

definition bracket_handlers :: "reply \<Rightarrow> string" where
  \<comment> \<open>the same over a table whose part with the most rejections is called \<open>BRACKET\<close>\<close>
  "bracket_handlers r =
     (case r of
        Analyze_Part_Rejection_Reasons p \<Rightarrow> ''**Why '' @ p @ '' has the most rejections:**''
      | Get_Part_Detailed_Analysis p \<Rightarrow> ''**Detailed Analysis for '' @ p @ '':**''
      | Handle_Part_Questions q \<Rightarrow> ''**Answer:** BRACKET with 500 total rejections.''
      | _ \<Rightarrow> ''**Data Summary:**'')"

section \<open>Properties of the string helpers\<close>

lemma starts_with_iff: "starts_with s p \<longleftrightarrow> prefix p s"
  by (induction s p rule: starts_with.induct) auto

lemma sub_in_iff: "sub_in p s \<longleftrightarrow> sublist p s"
proof (induction s)
  case Nil
  show ?case by simp
next
  case (Cons c cs)
  show ?case
    by (simp add: starts_with_iff Cons.IH sublist_Cons_right del: starts_with.simps)
qed

lemma sub_in_append: "sub_in p (u @ p @ v)"
  by (simp add: sub_in_iff)

section \<open>The first-match rule of the question type axis\<close>

lemma first_type_default:
  "''general'' \<notin> fst ` set tbl \<Longrightarrow>
   (first_type tbl q = ''general'') = (\<forall>j<length tbl. \<not> any_in (snd (tbl ! j)) q)"
proof (induction tbl)
  case Nil
  show ?case by simp
next
  case (Cons a tbl)
  obtain t kws where a: "a = (t, kws)" by (cases a)
  from Cons.prems a have t: "t \<noteq> ''general''" and rest: "''general'' \<notin> fst ` set tbl"
    by auto
  show ?case
    using Cons.IH [OF rest] t by (auto simp: a All_less_Suc2)
qed

lemma first_type_index:
  "distinct (map fst tbl) \<Longrightarrow> ''general'' \<notin> fst ` set tbl \<Longrightarrow> i < length tbl \<Longrightarrow>
   (first_type tbl q = fst (tbl ! i)) =
     (any_in (snd (tbl ! i)) q \<and> (\<forall>j<i. \<not> any_in (snd (tbl ! j)) q))"
proof (induction tbl arbitrary: i)
  case Nil
  then show ?case by simp
next
  case (Cons a tbl)
  obtain t kws where a: "a = (t, kws)" by (cases a)
  from Cons.prems a have d: "distinct (map fst tbl)" and t: "t \<notin> fst ` set tbl"
    and g: "''general'' \<notin> fst ` set tbl"
    by auto
  show ?case
  proof (cases i)
    case 0
    have "first_type tbl q \<noteq> t"
    proof (cases "\<forall>j<length tbl. \<not> any_in (snd (tbl ! j)) q")
      case True
      with first_type_default [OF g, of q] Cons.prems a show ?thesis by auto
    next
      case False
      then obtain j where j: "j < length tbl" "any_in (snd (tbl ! j)) q" by auto
      define k where "k = (LEAST j. j < length tbl \<and> any_in (snd (tbl ! j)) q)"
      have k: "k < length tbl \<and> any_in (snd (tbl ! k)) q"
        unfolding k_def by (rule LeastI [of _ j]) (use j in simp)
      have "\<forall>l<k. \<not> any_in (snd (tbl ! l)) q"
      proof (intro allI impI notI)
        fix l assume l: "l < k" "any_in (snd (tbl ! l)) q"
        with k have "l < length tbl \<and> any_in (snd (tbl ! l)) q" by simp
        then have "k \<le> l" unfolding k_def by (rule Least_le)
        with l show False by simp
      qed
      with Cons.IH [OF d g, of k] k have "first_type tbl q = fst (tbl ! k)" by simp
      with k t show ?thesis by (metis nth_mem image_eqI)
    qed
    with 0 a show ?thesis by auto
  next
    case (Suc n)
    with Cons.prems have n: "n < length tbl" by simp
    from n t have neq: "fst (tbl ! n) \<noteq> t" by (metis nth_mem image_eqI)
    show ?thesis
      using Cons.IH [OF d g n] neq Suc
      by (auto simp: a All_less_Suc2)
  qed
qed

text \<open>
  C4. The question type is decided by the first category, in the order comparison, ranking,
  quantity, analysis, visualization, specific, temporal, one of whose trigger keywords
  occurs anywhere in the lower-cased question; a question in which no keyword of any
  category occurs is \<open>general\<close>.
\<close>

theorem question_type_first_match:
  "map fst question_types =
     [''comparison'', ''ranking'', ''quantity'', ''analysis'', ''visualization'',
      ''specific'', ''temporal'']
   \<and> (\<forall>i<length question_types.
        (determine_question_type q = fst (question_types ! i)) =
          (any_in (snd (question_types ! i)) q
           \<and> (\<forall>j<i. \<not> any_in (snd (question_types ! j)) q)))
   \<and> ((determine_question_type q = ''general'') =
        (\<forall>j<length question_types. \<not> any_in (snd (question_types ! j)) q))"
proof -
  have d: "distinct (map fst question_types)"
    by (simp add: question_types_def)
  have g: "''general'' \<notin> fst ` set question_types"
    by (simp add: question_types_def)
  have "map fst question_types =
     [''comparison'', ''ranking'', ''quantity'', ''analysis'', ''visualization'',
      ''specific'', ''temporal'']"
    by (simp add: question_types_def)
  moreover have "\<forall>i<length question_types.
        (determine_question_type q = fst (question_types ! i)) =
          (any_in (snd (question_types ! i)) q
           \<and> (\<forall>j<i. \<not> any_in (snd (question_types ! j)) q))"
    unfolding determine_question_type_def using first_type_index [OF d g] by blast
  moreover have "(determine_question_type q = ''general'') =
        (\<forall>j<length question_types. \<not> any_in (snd (question_types ! j)) q)"
    unfolding determine_question_type_def by (rule first_type_default [OF g])
  ultimately show ?thesis by blast
qed

theorem question_type_first_match_witness:
  "0 < length question_types
   \<and> any_in (snd (question_types ! 0)) ''compare the top parts''
   \<and> any_in (snd (question_types ! 1)) ''compare the top parts''
   \<and> determine_question_type ''compare the top parts'' = ''comparison''"
proof -
  have l: "0 < length question_types"
    by (simp add: question_types_def)
  have h: "any_in (snd (question_types ! 0)) ''compare the top parts''"
    by (simp add: question_types_def any_in_def)
  have r: "any_in (snd (question_types ! 1)) ''compare the top parts''"
    by (simp add: question_types_def any_in_def)
  from question_type_first_match [of "''compare the top parts''"] l
  have "(determine_question_type ''compare the top parts'' = fst (question_types ! 0)) =
          (any_in (snd (question_types ! 0)) ''compare the top parts''
           \<and> (\<forall>j<0. \<not> any_in (snd (question_types ! j)) ''compare the top parts''))"
    by blast
  with h have "determine_question_type ''compare the top parts'' = fst (question_types ! 0)"
    by simp
  then have "determine_question_type ''compare the top parts'' = ''comparison''"
    by (simp add: question_types_def)
  with l h r show ?thesis by simp
qed

section \<open>Chart type: scores and ties\<close>

lemma chart_scores_shape:
  "\<exists>a b c d. chart_scores q = [(''pie'', a), (''bar'', b), (''line'', c), (''scatter'', d)]"
  by (simp add: chart_scores_def scores_def chart_type_patterns_def add_to_def Let_def)

lemma best_label_four:
  "best_label [(''pie'', a), (''bar'', b), (''line'', c), (''scatter'', d)] =
     (if max a (max b (max c d)) \<le> 0 then ''auto''
      else if b \<le> a \<and> c \<le> a \<and> d \<le> a then ''pie''
      else if c \<le> b \<and> d \<le> b then ''bar''
      else if d \<le> c then ''line''
      else ''scatter'')"
  by (auto simp add: best_label_def top_score_def max_def)

lemma hits_nonneg: "0 \<le> hits ws q"
  by (simp add: hits_def)

lemma raw_nonneg: "0 \<le> chart_raw label q"
proof -
  have "0 \<le> raw_score p q" for p
    using hits_nonneg [of "key_words p" q] hits_nonneg [of "phrases p" q]
    by (simp add: raw_score_def)
  then show ?thesis
    by (simp add: chart_raw_def score_of_def scores_def chart_type_patterns_def)
qed

lemma pie_bar_totals:
  assumes "sub_in ''distribution'' q" and "sub_in ''top'' q"
  shows "score_of (chart_scores q) ''pie'' = chart_raw ''pie'' q + 5"
    and "score_of (chart_scores q) ''bar'' = chart_raw ''bar'' q + 5"
  using assms
  by (simp_all add: chart_scores_def chart_raw_def scores_def chart_type_patterns_def add_to_def
      Let_def score_of_def any_in_def)


text \<open>
  C5, as stated, fails: in the question below \<open>distribution\<close> and \<open>top\<close> both occur, the
  pie and the bar label have the same raw score, and the chart type is \<open>line\<close>.
\<close>

theorem chart_tie_counterexample:
  "sub_in ''distribution'' ''top distribution trend over time''
   \<and> sub_in ''top'' ''top distribution trend over time''
   \<and> chart_raw ''pie'' ''top distribution trend over time''
       = chart_raw ''bar'' ''top distribution trend over time''
   \<and> determine_chart_type ''top distribution trend over time'' = ''line''"
  by code_simp

text \<open>
  C5, amended. When \<open>distribution\<close> and \<open>top\<close> both occur in the question and the pie and
  the bar label have the same raw score (2 for a keyword, 3 for a phrase), both labels get
  the increment of 5 and end with the same score; the chart type is then never \<open>bar\<close>, and
  it is \<open>pie\<close> exactly when neither \<open>line\<close> nor \<open>scatter\<close> scores more. For every question,
  labels of equal score are told apart by the fixed order pie, bar, line, scatter in which
  the pattern table is written: the chart type is the first label in that order that
  reaches the highest score, and \<open>auto\<close> when the highest score is 0.
\<close>

theorem chart_tie_pie_before_bar:
  "(sub_in ''distribution'' q \<and> sub_in ''top'' q \<and> chart_raw ''pie'' q = chart_raw ''bar'' q \<longrightarrow>
      score_of (chart_scores q) ''pie'' = score_of (chart_scores q) ''bar''
      \<and> determine_chart_type q \<noteq> ''bar''
      \<and> ((determine_chart_type q = ''pie'') =
           (score_of (chart_scores q) ''line'' \<le> score_of (chart_scores q) ''pie''
            \<and> score_of (chart_scores q) ''scatter'' \<le> score_of (chart_scores q) ''pie'')))
   \<and> map fst (chart_scores q) = [''pie'', ''bar'', ''line'', ''scatter'']
   \<and> (if 0 < top_score (chart_scores q)
       then List.find (\<lambda>label. score_of (chart_scores q) label = top_score (chart_scores q))
              [''pie'', ''bar'', ''line'', ''scatter''] = Some (determine_chart_type q)
       else determine_chart_type q = ''auto'')"
proof -
  obtain a b c d where shape:
    "chart_scores q = [(''pie'', a), (''bar'', b), (''line'', c), (''scatter'', d)]"
    using chart_scores_shape by blast
  have sc: "score_of (chart_scores q) ''pie'' = a" "score_of (chart_scores q) ''bar'' = b"
    "score_of (chart_scores q) ''line'' = c" "score_of (chart_scores q) ''scatter'' = d"
    by (simp_all add: shape score_of_def)
  have ts: "top_score (chart_scores q) = max a (max b (max c d))"
    by (simp add: shape top_score_def)
  have res: "determine_chart_type q =
     (if max a (max b (max c d)) \<le> 0 then ''auto''
      else if b \<le> a \<and> c \<le> a \<and> d \<le> a then ''pie''
      else if c \<le> b \<and> d \<le> b then ''bar''
      else if d \<le> c then ''line''
      else ''scatter'')"
    by (simp only: determine_chart_type_def shape best_label_four)
  have part1: "sub_in ''distribution'' q \<and> sub_in ''top'' q \<and> chart_raw ''pie'' q = chart_raw ''bar'' q \<longrightarrow>
      score_of (chart_scores q) ''pie'' = score_of (chart_scores q) ''bar''
      \<and> determine_chart_type q \<noteq> ''bar''
      \<and> ((determine_chart_type q = ''pie'') =
           (score_of (chart_scores q) ''line'' \<le> score_of (chart_scores q) ''pie''
            \<and> score_of (chart_scores q) ''scatter'' \<le> score_of (chart_scores q) ''pie''))"
  proof (intro impI)
    assume h: "sub_in ''distribution'' q \<and> sub_in ''top'' q \<and> chart_raw ''pie'' q = chart_raw ''bar'' q"
    then have eq: "a = b" and pos: "0 < a"
      using pie_bar_totals [of q] raw_nonneg [of "''pie''" q] by (simp_all add: sc)
    show "score_of (chart_scores q) ''pie'' = score_of (chart_scores q) ''bar''
      \<and> determine_chart_type q \<noteq> ''bar''
      \<and> ((determine_chart_type q = ''pie'') =
           (score_of (chart_scores q) ''line'' \<le> score_of (chart_scores q) ''pie''
            \<and> score_of (chart_scores q) ''scatter'' \<le> score_of (chart_scores q) ''pie''))"
      using eq pos by (auto simp add: sc res)
  qed
  have part2: "map fst (chart_scores q) = [''pie'', ''bar'', ''line'', ''scatter'']"
    by (simp add: shape)
  have part3: "(if 0 < top_score (chart_scores q)
       then List.find (\<lambda>label. score_of (chart_scores q) label = top_score (chart_scores q))
              [''pie'', ''bar'', ''line'', ''scatter''] = Some (determine_chart_type q)
       else determine_chart_type q = ''auto'')"
    by (auto simp add: sc ts res max_def)
  from part1 part2 part3 show ?thesis by blast
qed

theorem chart_tie_pie_before_bar_witness:
  "sub_in ''distribution'' ''distribution of top defects''
   \<and> sub_in ''top'' ''distribution of top defects''
   \<and> chart_raw ''pie'' ''distribution of top defects''
       = chart_raw ''bar'' ''distribution of top defects''
   \<and> 0 < top_score (chart_scores ''distribution of top defects'')
   \<and> score_of (chart_scores ''distribution of top defects'') ''pie''
       = score_of (chart_scores ''distribution of top defects'') ''bar''
   \<and> determine_chart_type ''distribution of top defects'' = ''pie''"
proof -
  have h: "sub_in ''distribution'' ''distribution of top defects''
     \<and> sub_in ''top'' ''distribution of top defects''
     \<and> chart_raw ''pie'' ''distribution of top defects''
         = chart_raw ''bar'' ''distribution of top defects''"
    by code_simp
  have v: "chart_scores ''distribution of top defects''
             = [(''pie'', 7), (''bar'', 7), (''line'', 0), (''scatter'', 0)]"
    by code_simp
  have l: "score_of (chart_scores ''distribution of top defects'') ''line''
             \<le> score_of (chart_scores ''distribution of top defects'') ''pie''
           \<and> score_of (chart_scores ''distribution of top defects'') ''scatter''
             \<le> score_of (chart_scores ''distribution of top defects'') ''pie''"
    by (simp add: v score_of_def)
  have p: "0 < top_score (chart_scores ''distribution of top defects'')"
    by (simp add: v top_score_def)
  from chart_tie_pie_before_bar [of "''distribution of top defects''"] h l p
  show ?thesis by blast
qed

section \<open>Routing of chart requests\<close>

lemma any_in_iff: "any_in ws s \<longleftrightarrow> (\<exists>w\<in>set ws. sublist w s)"
  by (simp add: any_in_def list_ex_iff sub_in_iff)

lemma visual_cues_chart_words: "any_in visual_cues s \<Longrightarrow> any_in chart_words s"
  by (auto simp add: any_in_iff visual_cues_def chart_words_def)

lemma create_smart_visualization_chart: "is_chart (create_smart_visualization q a)"
  by (simp add: create_smart_visualization_def is_chart_def Let_def)

text \<open>
  C10, as stated, fails for the cue words that only \<open>answer_question\<close> knows: \<open>deadline\<close>
  contains \<open>line\<close>, and the turn ends in the rejection reason summary, not in a chart.
\<close>

theorem line_not_charted_counterexample:
  "sub_in ''line'' (lower ''deadline'')
   \<and> fst (answer_question example_analyzer ''deadline'') = Get_Top_Rejection_Reasons None
   \<and> \<not> is_chart (fst (answer_question example_analyzer ''deadline''))"
  by code_simp

text \<open>
  C10, amended. The cue words are looked for as substrings of the lower-cased question,
  not as words. A question that contains one of chart, graph, plot, draw, show, visualize
  anywhere, also inside a longer word, ends in the chart routines of
  \<open>create_smart_visualization\<close>. A question that contains one of the nine words of
  \<open>answer_question\<close> (these six and pie, bar, line) is handed to
  \<open>generate_intelligent_response\<close> without the rejection patterns being tried.
\<close>

theorem visual_cue_substring_routing:
  "(\<forall>w\<in>set visual_cues. sublist w (lower q) \<longrightarrow>
      fst (answer_question self q)
        = create_smart_visualization q (fst (analyze_question_semantically self q))
      \<and> is_chart (fst (answer_question self q)))
   \<and> (\<forall>w\<in>set chart_words. sublist w (lower q) \<longrightarrow>
        answer_question self q = generate_intelligent_response self q)"
proof -
  have a: "answer_question self q = generate_intelligent_response self q"
    if "any_in chart_words (lower q)"
    using that by (simp add: answer_question_def)
  have b: "fst (generate_intelligent_response self q)
             = create_smart_visualization q (fst (analyze_question_semantically self q))"
    if "any_in visual_cues (lower q)"
    using that by (simp add: generate_intelligent_response_def Let_def split_beta)
  have c: "fst (answer_question self q)
        = create_smart_visualization q (fst (analyze_question_semantically self q))
      \<and> is_chart (fst (answer_question self q))"
    if "w \<in> set visual_cues" "sublist w (lower q)" for w
  proof -
    from that have v: "any_in visual_cues (lower q)" by (auto simp add: any_in_iff)
    then have "any_in chart_words (lower q)" by (rule visual_cues_chart_words)
    with a b v show ?thesis by (simp add: create_smart_visualization_chart)
  qed
  have d: "answer_question self q = generate_intelligent_response self q"
    if "w \<in> set chart_words" "sublist w (lower q)" for w
    using that a by (auto simp add: any_in_iff)
  from c d show ?thesis by blast
qed

theorem visual_cue_substring_routing_witness:
  "''show'' \<in> set visual_cues \<and> sublist ''show'' (lower ''Showcase the parts'')
   \<and> is_chart (fst (answer_question example_analyzer ''Showcase the parts''))
   \<and> ''line'' \<in> set chart_words \<and> sublist ''line'' (lower ''deadline'')
   \<and> answer_question example_analyzer ''deadline''
        = generate_intelligent_response example_analyzer ''deadline''"
proof -
  have m: "''show'' \<in> set visual_cues" "''line'' \<in> set chart_words"
    by (simp_all add: visual_cues_def chart_words_def)
  have "sub_in ''show'' (lower ''Showcase the parts'')" "sub_in ''line'' (lower ''deadline'')"
    by code_simp+
  then have s: "sublist ''show'' (lower ''Showcase the parts'')"
    "sublist ''line'' (lower ''deadline'')"
    by (simp_all only: sub_in_iff)
  from visual_cue_substring_routing [of "''Showcase the parts''" example_analyzer]
       visual_cue_substring_routing [of "''deadline''" example_analyzer] m s
  show ?thesis by blast
qed

section \<open>The count of a rejection reason query\<close>




text \<open>
  The clamp belongs to the rejection patterns. The two words \<open>top 0\<close> alone match none of
  them; the count 0 then reaches the handler through \<open>generate_intelligent_response\<close>.
\<close>

lemma top_0_alone_not_a_rejection_query:
  "rejection_scan rejection_patterns (lower ''top 0'') = (False, 5)
   \<and> fst (answer_question self ''top 0'') = Get_Top_Rejection_Reasons (Some 0)"
  by code_simp

section \<open>The fallback of the router\<close>

lemma fallback_passes_stored_count:
  assumes "\<not> any_in chart_words (lower q)"
    and "fst (rejection_scan rejection_patterns (lower q)) = False"
    and "question_type (fst (analyze_question_semantically self q)) \<noteq> ''visualization''"
    and "data_focus (fst (analyze_question_semantically self q)) \<noteq> ''defects''"
    and "data_focus (fst (analyze_question_semantically self q)) \<noteq> ''parts''"
    and "data_focus (fst (analyze_question_semantically self q)) \<noteq> ''trends''"
  shows "fst (answer_question self q)
           = Get_Top_Rejection_Reasons (specific_count (fst (analyze_question_semantically self q)))"
proof -
  from assms(1) have nv: "\<not> any_in visual_cues (lower q)"
    using visual_cues_chart_words by blast
  obtain n where n: "rejection_scan rejection_patterns (lower q) = (False, n)"
    using assms(2) by (cases "rejection_scan rejection_patterns (lower q)") auto
  have "answer_question self q = generate_intelligent_response self q"
    unfolding answer_question_def Let_def using assms(1) n by simp
  moreover have "fst (generate_intelligent_response self q)
           = Get_Top_Rejection_Reasons (specific_count (fst (analyze_question_semantically self q)))"
    unfolding generate_intelligent_response_def Let_def split_beta
    using nv assms(3-6) by simp
  ultimately show ?thesis by simp
qed

text \<open>
  C1. The question \<open>hello there\<close> matches no routing rule and falls through to the last
  branch of \<open>generate_intelligent_response\<close>. The count handed to
  \<open>get_top_rejection_reasons\<close> there is the stored \<open>specific_count\<close>, which is \<open>None\<close>, not
  5: over a table with six defect columns that have rejections the answer ranks all six,
  where a count of 5 ranks five.
\<close>

theorem fallback_count_is_none:
  "fst (answer_question example_analyzer ''hello there'') = Get_Top_Rejection_Reasons None
   \<and> get_top_rejection_reasons example_analyzer None =
       Top_Reasons [(''Toolmark'', 9), (''Burr'', 6), (''Oversize'', 4), (''Undersize'', 3),
                    (''Damage'', 2), (''Scratch'', 1)]
   \<and> get_top_rejection_reasons example_analyzer (Some 5) =
       Top_Reasons [(''Toolmark'', 9), (''Burr'', 6), (''Oversize'', 4), (''Undersize'', 3),
                    (''Damage'', 2)]"
  by code_simp

section \<open>Classification reads the question only\<close>

text \<open>
  C9. \<open>analyze_question_semantically\<close> leaves the analyzer as it found it, so a second run
  on the same question starts from the same object and returns the same analysis (question
  type, data focus, chart type and count); the analysis is the same for any two analyzers,
  whatever their conversation context and table.
\<close>

theorem classification_deterministic:
  "snd (analyze_question_semantically self q) = self
   \<and> analyze_question_semantically (snd (analyze_question_semantically self q)) q
       = analyze_question_semantically self q
   \<and> fst (analyze_question_semantically self' q) = fst (analyze_question_semantically self q)"
  by (simp add: analyze_question_semantically_def Let_def)

lemma enhanced_answer_question_keeps_object: "snd (answer_question self q) = self"
  by (simp add: answer_question_def generate_intelligent_response_def
      analyze_question_semantically_def Let_def split: prod.splits bool.splits)

section \<open>The list of mentioned parts\<close>

lemma follow_up_memory:
  "snd (follow_up mem q) = mem \<or> (\<exists>p. snd (follow_up mem q) = remember_part mem p)"
  by (auto simp add: follow_up_def Let_def split: option.splits prod.splits)

lemma handle_contextual_memory:
  "snd (handle_contextual_questions mem q) = snd (follow_up mem q)"
  by (cases "follow_up mem q") (auto simp add: handle_contextual_questions_def split: option.splits)

lemma keyword_routing_parts:
  "mentioned_parts (snd (keyword_routing handlers mem q)) = mentioned_parts mem"
  by (simp add: keyword_routing_def Let_def)

lemma answer_question_parts:
  "mentioned_parts (snd (answer_question_intelligent handlers mem q))
     = mentioned_parts (snd (follow_up (mem\<lparr>last_question := q\<rparr>) q))"
  by (cases "handle_contextual_questions (mem\<lparr>last_question := q\<rparr>) q")
     (auto simp add: answer_question_intelligent_def Let_def keyword_routing_parts
        handle_contextual_memory [symmetric] split: option.splits)

lemma remember_part_parts:
  "mentioned_parts (remember_part mem p) =
     (if p \<in> set (mentioned_parts mem) then mentioned_parts mem else mentioned_parts mem @ [p])"
  by (simp add: remember_part_def)

lemma answer_question_parts_step:
  "mentioned_parts (snd (answer_question_intelligent handlers mem q)) = mentioned_parts mem
   \<or> (\<exists>p. p \<notin> set (mentioned_parts mem)
          \<and> mentioned_parts (snd (answer_question_intelligent handlers mem q))
              = mentioned_parts mem @ [p])"
proof -
  let ?m = "mem\<lparr>last_question := q\<rparr>"
  from follow_up_memory [of ?m q] show ?thesis
  proof
    assume "snd (follow_up ?m q) = ?m"
    then show ?thesis by (simp add: answer_question_parts)
  next
    assume "\<exists>p. snd (follow_up ?m q) = remember_part ?m p"
    then obtain p where "snd (follow_up ?m q) = remember_part ?m p" ..
    then show ?thesis by (auto simp add: answer_question_parts remember_part_parts)
  qed
qed

lemma turns_parts:
  "prefix (mentioned_parts mem) (mentioned_parts (turns handlers mem qs))
   \<and> (distinct (mentioned_parts mem) \<longrightarrow> distinct (mentioned_parts (turns handlers mem qs)))"
proof (induction qs arbitrary: mem)
  case Nil
  show ?case by simp
next
  case (Cons q qs)
  let ?m = "snd (answer_question_intelligent handlers mem q)"
  have p: "prefix (mentioned_parts mem) (mentioned_parts ?m)"
    using answer_question_parts_step [of handlers mem q] by auto
  have d: "distinct (mentioned_parts mem) \<longrightarrow> distinct (mentioned_parts ?m)"
    using answer_question_parts_step [of handlers mem q] by auto
  from Cons.IH [of ?m] p d show ?case
    by (auto intro: prefix_order.trans)
qed

text \<open>
  C8. The list of mentioned parts grows by appending only, and a part that is already in
  it is not appended again: a turn leaves the list as it was or appends one part that was
  not in it, so every earlier entry keeps its place and no part ever occurs twice, over any
  sequence of turns. When the same part is resolved in three turns in a row it is in the
  list once.
\<close>

theorem mentioned_parts_append_once:
  "(mentioned_parts (snd (answer_question_intelligent handlers mem q)) = mentioned_parts mem
    \<or> (\<exists>p. p \<notin> set (mentioned_parts mem)
           \<and> mentioned_parts (snd (answer_question_intelligent handlers mem q))
               = mentioned_parts mem @ [p]))
   \<and> (e \<in> set (mentioned_parts mem) \<longrightarrow>
         mentioned_parts (remember_part mem e) = mentioned_parts mem)
   \<and> prefix (mentioned_parts mem) (mentioned_parts (turns handlers mem qs))
   \<and> (distinct (mentioned_parts mem) \<longrightarrow> distinct (mentioned_parts (turns handlers mem qs)))
   \<and> mentioned_parts
        (turns example_handlers fresh_memory [''Which part has the highest rejections?''])
       = []
   \<and> mentioned_parts
        (turns example_handlers fresh_memory
           [''Which part has the highest rejections?'', ''Why does this part fail so much?''])
       = [''PART-1001'']
   \<and> mentioned_parts
        (turns example_handlers fresh_memory
           [''Which part has the highest rejections?'', ''Why does this part fail so much?'',
            ''What caused it?'', ''How many rejections does this part have?''])
       = [''PART-1001'']"
proof -
  have a: "mentioned_parts
        (turns example_handlers fresh_memory [''Which part has the highest rejections?''])
       = []"
    by code_simp
  have b: "mentioned_parts
        (turns example_handlers fresh_memory
           [''Which part has the highest rejections?'', ''Why does this part fail so much?''])
       = [''PART-1001'']"
    by code_simp
  have c: "mentioned_parts
        (turns example_handlers fresh_memory
           [''Which part has the highest rejections?'', ''Why does this part fail so much?'',
            ''What caused it?'', ''How many rejections does this part have?''])
       = [''PART-1001'']"
    by code_simp
  from answer_question_parts_step [of handlers mem q] turns_parts [of mem handlers qs] a b c
  show ?thesis by (simp add: remember_part_parts)
qed

theorem mentioned_parts_append_once_witness:
  "''PART-1001'' \<in> set (mentioned_parts (remember_part fresh_memory ''PART-1001''))
   \<and> distinct (mentioned_parts (remember_part fresh_memory ''PART-1001''))
   \<and> mentioned_parts (remember_part (remember_part fresh_memory ''PART-1001'') ''PART-1001'')
       = [''PART-1001'']
   \<and> distinct (mentioned_parts
        (turns example_handlers (remember_part fresh_memory ''PART-1001'')
           [''Which part has the highest rejections?'', ''Why does this part fail so much?'']))"
proof -
  have v: "mentioned_parts (remember_part fresh_memory ''PART-1001'') = [''PART-1001'']"
    by (simp add: remember_part_def fresh_memory_def)
  have h: "''PART-1001'' \<in> set (mentioned_parts (remember_part fresh_memory ''PART-1001''))"
    "distinct (mentioned_parts (remember_part fresh_memory ''PART-1001''))"
    by (simp_all add: v)
  from mentioned_parts_append_once
         [of example_handlers "remember_part fresh_memory ''PART-1001''" "[]" "''PART-1001''"
             "[''Which part has the highest rejections?'', ''Why does this part fail so much?'']"]
       h v
  show ?thesis by simp
qed

section \<open>Resolving the part of a follow-up question\<close>











subsection \<open>The search in the last question\<close>

lemma rx_match_suffix:
  "(s', g') \<in> set (rx_match r s g) \<Longrightarrow> suffix s' s"
proof (induction r arbitrary: s g s' g')
  case (Lit p)
  then show ?case by (auto simp add: suffix_drop split: if_splits)
next
  case (Cls P)
  then show ?case by (auto simp add: suffix_Cons split: list.splits if_splits)
next
  case (Rep n P)
  then show ?case by (auto simp add: suffix_drop)
next
  case (Opt r)
  then show ?case by auto
next
  case (Alt a b)
  then show ?case by auto
next
  case (Seq a b)
  from Seq.prems obtain s1 g1 where 1: "(s1, g1) \<in> set (rx_match a s g)"
    and 2: "(s', g') \<in> set (rx_match b s1 g1)"
    by auto
  from Seq.IH(1) [OF 1] Seq.IH(2) [OF 2] show ?case
    by (rule suffix_order.trans [rotated])
next
  case (Grp n r)
  then show ?case by auto
qed

lemma lower_chr_not_upper: "\<not> is_upper (lower_chr c)"
  by (auto simp add: lower_chr_def is_upper_def latin_capitals_def latin_smalls_def
      split: option.splits if_splits)

lemma lower_no_upper: "\<forall>c\<in>set (lower s). \<not> is_upper c"
  by (simp add: lower_def lower_chr_not_upper)

lemma seq_no_match:
  "(\<And>s' g'. (s', g') \<in> set (rx_match a s g) \<Longrightarrow> rx_match b s' g' = []) \<Longrightarrow>
   rx_match (Seq a b) s g = []"
  by auto

lemma part_shape_needs_upper:
  "\<forall>c\<in>set s. \<not> is_upper c \<Longrightarrow> rx_match part_shape s g = []"
  by (cases s) (simp_all add: part_shape_def)

lemma suffix_no_upper:
  "suffix s' s \<Longrightarrow> \<forall>c\<in>set s. \<not> is_upper c \<Longrightarrow> \<forall>c\<in>set s'. \<not> is_upper c"
  by (auto simp add: suffix_def)

lemma question_part_needs_upper:
  assumes "\<forall>c\<in>set s. \<not> is_upper c"
  shows "rx_match question_part_rx s g = []"
proof -
  have last: "rx_match (Grp 2 part_shape) t h = []" if "suffix t s" for t h
    using part_shape_needs_upper [OF suffix_no_upper [OF that assms]] by simp
  have 4: "rx_match (Seq (Rep 1 is_space) (Grp 2 part_shape)) t h = []" if "suffix t s" for t h
  proof (rule seq_no_match)
    fix s' g' assume "(s', g') \<in> set (rx_match (Rep 1 is_space) t h)"
    then have "suffix s' t" by (rule rx_match_suffix)
    then have "suffix s' s" using that by (rule suffix_order.trans)
    then show "rx_match (Grp 2 part_shape) s' g' = []" by (rule last)
  qed
  have 3: "rx_match (Seq (Grp 1 (alts [''number'', ''name'']))
                      (Seq (Rep 1 is_space) (Grp 2 part_shape))) t h = []"
    if "suffix t s" for t h
  proof (rule seq_no_match)
    fix s' g' assume "(s', g') \<in> set (rx_match (Grp 1 (alts [''number'', ''name''])) t h)"
    then have "suffix s' t" by (rule rx_match_suffix)
    then have "suffix s' s" using that by (rule suffix_order.trans)
    then show "rx_match (Seq (Rep 1 is_space) (Grp 2 part_shape)) s' g' = []" by (rule 4)
  qed
  have 2: "rx_match (Seq (Rep 1 is_space)
                      (Seq (Grp 1 (alts [''number'', ''name'']))
                         (Seq (Rep 1 is_space) (Grp 2 part_shape)))) t h = []"
    if "suffix t s" for t h
  proof (rule seq_no_match)
    fix s' g' assume "(s', g') \<in> set (rx_match (Rep 1 is_space) t h)"
    then have "suffix s' t" by (rule rx_match_suffix)
    then have "suffix s' s" using that by (rule suffix_order.trans)
    then show "rx_match (Seq (Grp 1 (alts [''number'', ''name'']))
                      (Seq (Rep 1 is_space) (Grp 2 part_shape))) s' g' = []" by (rule 3)
  qed
  have 1: "rx_match (Seq (Lit ''part'')
                      (Seq (Rep 1 is_space)
                         (Seq (Grp 1 (alts [''number'', ''name'']))
                            (Seq (Rep 1 is_space) (Grp 2 part_shape))))) s g = []"
  proof (rule seq_no_match)
    fix s' g' assume "(s', g') \<in> set (rx_match (Lit ''part'') s g)"
    then have "suffix s' s" by (rule rx_match_suffix)
    then show "rx_match (Seq (Rep 1 is_space)
                      (Seq (Grp 1 (alts [''number'', ''name'']))
                         (Seq (Rep 1 is_space) (Grp 2 part_shape)))) s' g' = []" by (rule 2)
  qed
  then show ?thesis by (simp add: question_part_rx_def)
qed

lemma rx_search_none:
  "(\<And>t. suffix t s \<Longrightarrow> rx_match r t Map.empty = []) \<Longrightarrow> rx_search r s = None"
proof (induction s)
  case Nil
  then show ?case by simp
next
  case (Cons c cs)
  have "rx_match r (c # cs) Map.empty = []" using Cons.prems by simp
  moreover have "rx_search r cs = None"
    using Cons.prems by (intro Cons.IH) (simp add: suffix_Cons)
  ultimately show ?case by simp
qed

text \<open>
  The second search needs a capital letter after \<open>part number\<close> or \<open>part name\<close>, and the
  text it is given has been lower-cased: it never finds anything.
\<close>

lemma question_phrase_never_found:
  "rx_search question_part_rx (lower s) = None"
proof (rule rx_search_none)
  fix t assume "suffix t (lower s)"
  then have "\<forall>c\<in>set t. \<not> is_upper c"
    using lower_no_upper by (rule suffix_no_upper)
  then show "rx_match question_part_rx t Map.empty = []"
    by (rule question_part_needs_upper)
qed

section \<open>Follow-up questions on an empty memory\<close>

lemma follow_up_no_answer:
  "last_answer mem = [] \<Longrightarrow> follow_up mem q = (None, mem)"
  by (simp add: follow_up_def Let_def)

lemma pronoun_reference_no_part:
  "memory_context mem ''current_part'' = None \<Longrightarrow> pronoun_reference mem q = None"
  by (simp add: pronoun_reference_def current_part_def Let_def)

lemma pronoun_reference_replies:
  "pronoun_reference mem q = None
   \<or> pronoun_reference mem q = Some (Analyze_Part_Rejection_Reasons (current_part mem))"
  by (simp add: pronoun_reference_def Let_def)

text \<open>
  The message of the pronoun branch is never returned: the branch is entered only when a
  current part is stored, and the message is guarded by the test that none is.
\<close>

lemma unable_to_determine_unreachable:
  "fst (handle_contextual_questions mem q) \<noteq> Some Unable_To_Determine_Part"
proof (cases "follow_up mem q")
  case (Pair r mem1)
  have f: "r \<noteq> Some Unable_To_Determine_Part"
    using Pair by (auto simp add: follow_up_def Let_def split: if_splits option.splits prod.splits)
  have p: "pronoun_reference mem1 q \<noteq> Some Unable_To_Determine_Part"
    using pronoun_reference_replies [of mem1 q] by auto
  show ?thesis
    using Pair f p by (cases r) (simp_all add: handle_contextual_questions_def)
qed

text \<open>
  C7, as stated, fails: \<open>why?\<close> has a context word, the memory is fresh, and the turn is
  answered with the general data summary. Nothing tells the caller that the referent is
  missing.
\<close>

theorem why_not_clarified_counterexample:
  "any_in context_words (lower ''why?'')
   \<and> fst (handle_contextual_questions (fresh_memory\<lparr>last_question := ''why?''\<rparr>) ''why?'') = None
   \<and> fst (answer_question_intelligent example_handlers fresh_memory ''why?'')
       = Handle_General_Questions ''why?''
   \<and> reply_text example_handlers
        (fst (answer_question_intelligent example_handlers fresh_memory ''why?''))
       = ''**Data Summary:**''"
  by code_simp

text \<open>
  C7, amended. With no last answer and no current part in the memory, a question is never
  tied to a part: \<open>handle_contextual_questions\<close> leaves the memory as it is (no current
  part, no mentioned part) and returns no reply that names a part. A question without
  \<open>this part\<close> or \<open>that part\<close> gets no reply from it at all and is answered by the
  keyword routing, like a question with no context word.
\<close>

theorem empty_memory_no_referent:
  "last_answer mem = [] \<and> memory_context mem ''current_part'' = None \<longrightarrow>
     snd (handle_contextual_questions mem q) = mem
     \<and> (\<forall>p. fst (handle_contextual_questions mem q) \<noteq> Some (Analyze_Part_Rejection_Reasons p)
            \<and> fst (handle_contextual_questions mem q) \<noteq> Some (Get_Part_Detailed_Analysis p))
     \<and> (\<not> sub_in ''this part'' (lower q) \<and> \<not> sub_in ''that part'' (lower q) \<longrightarrow>
           fst (handle_contextual_questions mem q) = None
           \<and> answer_question_intelligent handlers mem q
               = keyword_routing handlers (mem\<lparr>last_question := q\<rparr>) q)"
proof (intro impI)
  assume h: "last_answer mem = [] \<and> memory_context mem ''current_part'' = None"
  have c: "handle_contextual_questions mem q = (None, mem)"
    using h by (simp add: handle_contextual_questions_def follow_up_no_answer
        pronoun_reference_no_part)
  have c': "handle_contextual_questions (mem\<lparr>last_question := q\<rparr>) q
              = (None, mem\<lparr>last_question := q\<rparr>)"
    using h by (simp add: handle_contextual_questions_def follow_up_no_answer
        pronoun_reference_no_part)
  have "answer_question_intelligent handlers mem q
               = keyword_routing handlers (mem\<lparr>last_question := q\<rparr>) q"
    by (simp add: answer_question_intelligent_def Let_def c')
  with c show "snd (handle_contextual_questions mem q) = mem
     \<and> (\<forall>p. fst (handle_contextual_questions mem q) \<noteq> Some (Analyze_Part_Rejection_Reasons p)
            \<and> fst (handle_contextual_questions mem q) \<noteq> Some (Get_Part_Detailed_Analysis p))
     \<and> (\<not> sub_in ''this part'' (lower q) \<and> \<not> sub_in ''that part'' (lower q) \<longrightarrow>
           fst (handle_contextual_questions mem q) = None
           \<and> answer_question_intelligent handlers mem q
               = keyword_routing handlers (mem\<lparr>last_question := q\<rparr>) q)"
    by simp
qed

theorem empty_memory_no_referent_witness:
  "last_answer fresh_memory = [] \<and> memory_context fresh_memory ''current_part'' = None
   \<and> \<not> sub_in ''this part'' (lower ''why?'') \<and> \<not> sub_in ''that part'' (lower ''why?'')
   \<and> snd (handle_contextual_questions fresh_memory ''why?'') = fresh_memory
   \<and> fst (handle_contextual_questions fresh_memory ''why?'') = None
   \<and> answer_question_intelligent example_handlers fresh_memory ''why?''
       = keyword_routing example_handlers (fresh_memory\<lparr>last_question := ''why?''\<rparr>) ''why?''"
proof -
  have h: "last_answer fresh_memory = [] \<and> memory_context fresh_memory ''current_part'' = None"
    by (simp add: fresh_memory_def)
  have w: "\<not> sub_in ''this part'' (lower ''why?'') \<and> \<not> sub_in ''that part'' (lower ''why?'')"
    by code_simp
  note th = empty_memory_no_referent [of fresh_memory "''why?''" example_handlers, THEN mp, OF h]
  from th [THEN conjunct1] th [THEN conjunct2, THEN conjunct2, THEN mp, OF w] h w
  show ?thesis by (intro conjI) simp_all
qed

section \<open>What a turn stores in the memory\<close>

lemma top_defect_question:
  "answer_question_intelligent handlers mem ''What is the top defect?''
     = (Handle_Defect_Questions ''What is the top defect?'',
        mem\<lparr>last_question := ''What is the top defect?''\<rparr>)"
proof -
  have lq: "lower ''What is the top defect?'' = ''what is the top defect?''"
    by code_simp
  have hc: "handle_contextual_questions m ''What is the top defect?'' = (None, m)" for m
    by (simp add: handle_contextual_questions_def follow_up_def pronoun_reference_def Let_def
        lq any_in_def context_words_def)
  have kr: "keyword_routing handlers m ''What is the top defect?''
              = (Handle_Defect_Questions ''What is the top defect?'', m)" for m
    by (simp add: keyword_routing_def Let_def lq any_in_def)
  show ?thesis
    by (simp add: answer_question_intelligent_def Let_def hc kr)
qed

text \<open>
  C2. \<open>What is the top defect?\<close> is answered by \<open>handle_defect_questions\<close>, whose branch
  returns without storing the answer: the turn stores its question and leaves \<open>last_answer\<close>
  as it was. Asked after \<open>Which part has the highest rejections?\<close>, the memory still holds
  the answer about the part while the answer returned is the list of rejection reasons.
\<close>

theorem defect_turn_keeps_stale_answer:
  "fst (answer_question_intelligent handlers mem ''What is the top defect?'')
     = Handle_Defect_Questions ''What is the top defect?''
   \<and> last_question (snd (answer_question_intelligent handlers mem ''What is the top defect?''))
       = ''What is the top defect?''
   \<and> last_answer (snd (answer_question_intelligent handlers mem ''What is the top defect?''))
       = last_answer mem
   \<and> reply_text example_handlers
        (fst (answer_question_intelligent example_handlers
                (turns example_handlers fresh_memory [''Which part has the highest rejections?''])
                ''What is the top defect?''))
       = ''**Top 5 Rejection Reasons:**''
   \<and> last_answer
        (turns example_handlers fresh_memory
           [''Which part has the highest rejections?'', ''What is the top defect?''])
       = ''**Answer:** PART-1001 with 500 total rejections.''"
proof -
  have a: "reply_text example_handlers
        (fst (answer_question_intelligent example_handlers
                (turns example_handlers fresh_memory [''Which part has the highest rejections?''])
                ''What is the top defect?''))
       = ''**Top 5 Rejection Reasons:**''"
    by code_simp
  have b: "last_answer
        (turns example_handlers fresh_memory
           [''Which part has the highest rejections?'', ''What is the top defect?''])
       = ''**Answer:** PART-1001 with 500 total rejections.''"
    by code_simp
  from a b show ?thesis
    by (simp add: top_defect_question)
qed

text \<open>
  Every turn stores its question; the keyword routing stores the answer in some branches
  and leaves the last answer alone in the others.
\<close>

lemma keyword_routing_last_answer:
  "last_answer (snd (keyword_routing handlers mem q)) = last_answer mem
   \<or> last_answer (snd (keyword_routing handlers mem q))
        = reply_text handlers (fst (keyword_routing handlers mem q))"
  by (simp add: keyword_routing_def Let_def)

lemma answer_question_stores_question:
  "last_question (snd (answer_question_intelligent handlers mem q)) = q"
proof -
  have f: "last_question (snd (follow_up m q)) = last_question m" for m
    using follow_up_memory [of m q] by (auto simp add: remember_part_def)
  have k: "last_question (snd (keyword_routing handlers m q)) = last_question m" for m
    by (simp add: keyword_routing_def Let_def)
  show ?thesis
    by (cases "handle_contextual_questions (mem\<lparr>last_question := q\<rparr>) q")
       (use f [of "mem\<lparr>last_question := q\<rparr>"] k in
         \<open>auto simp add: answer_question_intelligent_def Let_def
             handle_contextual_memory [symmetric] split: option.splits\<close>)
qed

end
